theory Spec2Isabelle
  imports Complex_Main "HOL-Library.Finite_Map" "HOL-Library.Signed_Division" "HOL-Library.Sublist"
begin

section \<open>Go strings and the standard-library calls the package makes on them\<close>

text \<open>
  A Go string is a sequence of bytes; \<^typ>\<open>string\<close> (a list of 8-bit characters) models it.
  The library reads text as UTF-8: \<open>decode_rune\<close> is \<open>utf8.DecodeRuneInString\<close> (the rune at
  the head of the text and its width, with \<open>RuneError\<close> and width 1 for a byte that starts no
  valid encoding), \<open>DecodeLastRune\<close> is \<open>utf8.DecodeLastRuneInString\<close>, and \<open>encode_rune\<close>
  is \<open>utf8.AppendRune\<close>.
\<close>

abbreviation byte :: "char \<Rightarrow> int" where
  "byte c \<equiv> of_char c"

definition RuneError :: int where
  "RuneError = 0xFFFD"

definition accept_lo :: "int \<Rightarrow> int" where
  \<comment> \<open>the least second byte after the leading byte \<open>b0\<close>\<close>
  "accept_lo b0 = (if b0 = 0xE0 then 0xA0 else if b0 = 0xF0 then 0x90 else 0x80)"

definition accept_hi :: "int \<Rightarrow> int" where
  "accept_hi b0 = (if b0 = 0xED then 0x9F else if b0 = 0xF4 then 0x8F else 0xBF)"

definition decode_rune :: "string \<Rightarrow> int \<times> nat" where
  "decode_rune s =
     (case s of
        [] \<Rightarrow> (RuneError, 0)
      | c0 # s1 \<Rightarrow>
          if byte c0 < 0x80 then (byte c0, 1)
          else if byte c0 < 0xC2 \<or> 0xF4 < byte c0 then (RuneError, 1)
          else
            (case s1 of
               [] \<Rightarrow> (RuneError, 1)
             | c1 # s2 \<Rightarrow>
                 if byte c1 < accept_lo (byte c0) \<or> accept_hi (byte c0) < byte c1
                 then (RuneError, 1)
                 else if byte c0 < 0xE0
                 then ((byte c0 - 0xC0) * 64 + (byte c1 - 0x80), 2)
                 else
                   (case s2 of
                      [] \<Rightarrow> (RuneError, 1)
                    | c2 # s3 \<Rightarrow>
                        if byte c2 < 0x80 \<or> 0xBF < byte c2 then (RuneError, 1)
                        else if byte c0 < 0xF0
                        then ((byte c0 - 0xE0) * 4096 + (byte c1 - 0x80) * 64
                                + (byte c2 - 0x80), 3)
                        else
                          (case s3 of
                             [] \<Rightarrow> (RuneError, 1)
                           | c3 # s4 \<Rightarrow>
                               if byte c3 < 0x80 \<or> 0xBF < byte c3 then (RuneError, 1)
                               else ((byte c0 - 0xF0) * 262144 + (byte c1 - 0x80) * 4096
                                       + (byte c2 - 0x80) * 64 + (byte c3 - 0x80), 4)))))"

fun runes :: "string \<Rightarrow> int list" where
  \<comment> \<open>the runes a \<open>range\<close> loop over the string yields\<close>
  "runes [] = []"
| "runes (c # cs) =
     fst (decode_rune (c # cs)) # runes (drop (snd (decode_rune (c # cs)) - 1) cs)"

definition encode_rune :: "int \<Rightarrow> string" where
  "encode_rune r =
     (if r < 0 \<or> 0x10FFFF < r \<or> (0xD800 \<le> r \<and> r \<le> 0xDFFF)
      then [CHR 0xEF, CHR 0xBF, CHR 0xBD]
      else if r < 0x80 then [char_of r]
      else if r < 0x800 then [char_of (0xC0 + r div 64), char_of (0x80 + r mod 64)]
      else if r < 0x10000
      then [char_of (0xE0 + r div 4096), char_of (0x80 + (r div 64) mod 64),
            char_of (0x80 + r mod 64)]
      else [char_of (0xF0 + r div 262144), char_of (0x80 + (r div 4096) mod 64),
            char_of (0x80 + (r div 64) mod 64), char_of (0x80 + r mod 64)])"

definition RuneStart :: "char \<Rightarrow> bool" where
  "RuneStart c = (byte c < 0x80 \<or> 0xBF < byte c)"

definition last_rune_start :: "string \<Rightarrow> nat" where
  \<comment> \<open>where \<open>DecodeLastRuneInString\<close> starts decoding: at the nearest byte that can start a
      rune among the three before the last, else as far back as it looks\<close>
  "last_rune_start s =
     (let n = length s in
      if 2 \<le> n \<and> RuneStart (s ! (n - 2)) then n - 2
      else if 3 \<le> n \<and> RuneStart (s ! (n - 3)) then n - 3
      else if 4 \<le> n \<and> RuneStart (s ! (n - 4)) then n - 4
      else if 5 \<le> n then n - 5
      else 0)"

definition DecodeLastRune :: "string \<Rightarrow> int \<times> nat" where
  "DecodeLastRune s =
     (if s = [] then (RuneError, 0)
      else if byte (last s) < 0x80 then (byte (last s), 1)
      else if last_rune_start s + snd (decode_rune (drop (last_rune_start s) s)) \<noteq> length s
      then (RuneError, 1)
      else decode_rune (drop (last_rune_start s) s))"

subsection \<open>strings.ToUpper, strings.TrimSpace, strings.HasPrefix\<close>

text \<open>
  \<open>strings.ToUpper\<close> maps \<open>unicode.ToUpper\<close> over the runes of the text and encodes the
  results (\<open>strings.Map\<close>); on text that is all ASCII its byte loop computes the same. \<open>unicode.ToUpper\<close> is
  written out for ASCII; above ASCII it reads the Unicode case tables of the Go runtime, which
  are a parameter. \<open>strings.TrimSpace\<close> removes the leading and then the trailing runes for
  which \<open>unicode.IsSpace\<close> holds: the code points with the White_Space property.
\<close>

record go_unicode =
  unicode_ToUpper :: "int \<Rightarrow> int"

definition ascii_only :: go_unicode where
  \<comment> \<open>case tables that leave every rune above ASCII as it is\<close>
  "ascii_only = \<lparr>unicode_ToUpper = (\<lambda>r. r)\<rparr>"

definition ToUpper_rune :: "go_unicode \<Rightarrow> int \<Rightarrow> int" where
  "ToUpper_rune U r =
     (if r < 0x80 then (if 97 \<le> r \<and> r \<le> 122 then r - 32 else r) else unicode_ToUpper U r)"

definition Map_runes :: "(int \<Rightarrow> int) \<Rightarrow> string \<Rightarrow> string" where
  \<comment> \<open>\<open>strings.Map\<close>: every rune is mapped and encoded again; a rune mapped to a negative
      value is dropped\<close>
  "Map_runes mapping s = concat (map encode_rune (filter (\<lambda>r. 0 \<le> r) (map mapping (runes s))))"

definition ToUpper :: "go_unicode \<Rightarrow> string \<Rightarrow> string" where
  "ToUpper U s = Map_runes (ToUpper_rune U) s"

definition IsSpace :: "int \<Rightarrow> bool" where
  "IsSpace r =
     (r \<in> {0x09, 0x0A, 0x0B, 0x0C, 0x0D, 0x20, 0x85, 0xA0, 0x1680}
      \<or> (0x2000 \<le> r \<and> r \<le> 0x200A)
      \<or> r \<in> {0x2028, 0x2029, 0x202F, 0x205F, 0x3000})"

fun TrimLeftSpace :: "string \<Rightarrow> string" where
  "TrimLeftSpace [] = []"
| "TrimLeftSpace (c # cs) =
     (if IsSpace (fst (decode_rune (c # cs)))
      then TrimLeftSpace (drop (snd (decode_rune (c # cs)) - 1) cs)
      else c # cs)"

lemma last_rune_start_less: "s \<noteq> [] \<Longrightarrow> last_rune_start s < length s"
  by (simp add: last_rune_start_def Let_def)

lemma DecodeLastRune_width:
  assumes "s \<noteq> []"
  shows "1 \<le> snd (DecodeLastRune s) \<and> snd (DecodeLastRune s) \<le> length s"
proof -
  have n: "1 \<le> length s" using assms by (cases s) simp_all
  consider "byte (last s) < 0x80"
    | "\<not> byte (last s) < 0x80"
      "last_rune_start s + snd (decode_rune (drop (last_rune_start s) s)) \<noteq> length s"
    | "\<not> byte (last s) < 0x80"
      "last_rune_start s + snd (decode_rune (drop (last_rune_start s) s)) = length s"
    by blast
  then show ?thesis
  proof cases
    case 1
    then have "snd (DecodeLastRune s) = 1" using assms by (simp add: DecodeLastRune_def)
    with n show ?thesis by simp
  next
    case 2
    then have "snd (DecodeLastRune s) = 1" using assms by (simp add: DecodeLastRune_def)
    with n show ?thesis by simp
  next
    case 3
    then have "DecodeLastRune s = decode_rune (drop (last_rune_start s) s)"
      using assms by (simp add: DecodeLastRune_def)
    with 3(2) have "snd (DecodeLastRune s) = length s - last_rune_start s" by simp
    with last_rune_start_less [OF assms] show ?thesis by simp
  qed
qed

function TrimRightSpace :: "string \<Rightarrow> string" where
  "TrimRightSpace [] = []"
| "TrimRightSpace (c # cs) =
     (if IsSpace (fst (DecodeLastRune (c # cs)))
      then TrimRightSpace (take (length (c # cs) - snd (DecodeLastRune (c # cs))) (c # cs))
      else c # cs)"
  by pat_completeness auto
termination
proof (relation "measure length")
  fix c :: char and cs :: string
  have "1 \<le> snd (DecodeLastRune (c # cs))"
    using DecodeLastRune_width [of "c # cs"] by simp
  then show "(take (length (c # cs) - snd (DecodeLastRune (c # cs))) (c # cs), c # cs)
        \<in> measure length"
    by simp
qed simp

definition TrimSpace :: "string \<Rightarrow> string" where
  "TrimSpace s = TrimRightSpace (TrimLeftSpace s)"

definition HasPrefix :: "string \<Rightarrow> string \<Rightarrow> bool" where
  "HasPrefix s pre = (length pre \<le> length s \<and> take (length pre) s = pre)"

definition ascii_upper :: "char \<Rightarrow> char" where
  "ascii_upper c = (if 97 \<le> byte c \<and> byte c \<le> 122 then char_of (byte c - 32) else c)"

subsection \<open>The table-name patterns\<close>

text \<open>
  \<open>extractTableName\<close> compiles one of three patterns, which differ in the keyword only:
  \<^verbatim>\<open>(?i)\bKEYWORD\s+["`]?(\w+)["`]?\<close> with KEYWORD one of FROM, INTO, UPDATE.
  In Go's regexp syntax \<^verbatim>\<open>\s\<close> is \<^verbatim>\<open>[\t\n\f\r ]\<close> and \<^verbatim>\<open>\b\<close> is the ASCII word
  boundary. \<^verbatim>\<open>\w\<close> is \<^verbatim>\<open>[0-9A-Za-z_]\<close>, but under the flag \<^verbatim>\<open>(?i)\<close> the class is closed
  under case folding, which adds the two runes that fold to an ASCII letter: U+017F (long s,
  bytes C5 BF) and U+212A (Kelvin sign, bytes E2 84 AA). The letters of the three keywords
  have no such fold, so a keyword matches ASCII bytes only.

  \<open>FindStringSubmatch\<close> returns the leftmost match, built with greedy quantifiers. At a given
  start the match is forced: the keyword, the whole run of white space (giving back white space
  cannot help, as white space is neither a quote nor a word rune), one quote if there is
  one, and the whole run of word runes, which must not be empty. The value returned is
  capture group 1, the run of word runes.
\<close>

definition is_word_char :: "char \<Rightarrow> bool" where
  "is_word_char c =
     ((48 \<le> byte c \<and> byte c \<le> 57) \<or> (65 \<le> byte c \<and> byte c \<le> 90) \<or> byte c = 95
      \<or> (97 \<le> byte c \<and> byte c \<le> 122))"

definition is_regexp_space :: "char \<Rightarrow> bool" where
  "is_regexp_space c = (byte c \<in> {9, 10, 12, 13, 32})"

definition is_quote :: "char \<Rightarrow> bool" where
  \<comment> \<open>the class of the double quote (0x22) and the backtick (0x60)\<close>
  "is_quote c = (byte c \<in> {34, 96})"

definition word_rune_width :: "string \<Rightarrow> nat" where
  \<comment> \<open>the width in bytes of the rune of the folded class \<^verbatim>\<open>\w\<close> at the head of the text;
      0 when there is none\<close>
  "word_rune_width s =
     (case s of
        [] \<Rightarrow> 0
      | c # cs \<Rightarrow>
          if is_word_char c then 1
          else if take 2 s = [CHR 0xC5, CHR 0xBF] then 2
          else if take 3 s = [CHR 0xE2, CHR 0x84, CHR 0xAA] then 3
          else 0)"

fun take_word_runes :: "string \<Rightarrow> string" where
  \<comment> \<open>the longest prefix made of runes of the folded class \<^verbatim>\<open>\w\<close>\<close>
  "take_word_runes [] = []"
| "take_word_runes (c # cs) =
     (if word_rune_width (c # cs) = 0 then []
      else take (word_rune_width (c # cs)) (c # cs)
             @ take_word_runes (drop (word_rune_width (c # cs) - 1) cs))"

definition word_boundary :: "char option \<Rightarrow> string \<Rightarrow> bool" where
  "word_boundary prev rest =
     ((case prev of None \<Rightarrow> False | Some c \<Rightarrow> is_word_char c)
        \<noteq> (case rest of [] \<Rightarrow> False | c # _ \<Rightarrow> is_word_char c))"

definition match_at :: "string \<Rightarrow> char option \<Rightarrow> string \<Rightarrow> string option" where
  "match_at kw prev rest =
     (if word_boundary prev rest \<and> HasPrefix (map ascii_upper rest) kw then
        (let after_kw = drop (length kw) rest;
             after_ws = dropWhile is_regexp_space after_kw;
             after_quote = (case after_ws of [] \<Rightarrow> []
                            | c # cs \<Rightarrow> if is_quote c then cs else after_ws);
             ident = take_word_runes after_quote
         in if takeWhile is_regexp_space after_kw = [] \<or> ident = [] then None else Some ident)
      else None)"

fun find_submatch :: "string \<Rightarrow> char option \<Rightarrow> string \<Rightarrow> string option" where
  "find_submatch kw prev [] = match_at kw prev []"
| "find_submatch kw prev (c # cs) =
     (case match_at kw prev (c # cs) of
        Some ident \<Rightarrow> Some ident
      | None \<Rightarrow> find_submatch kw (Some c) cs)"

definition FindStringSubmatch :: "string \<Rightarrow> string \<Rightarrow> string option" where
  \<comment> \<open>capture group 1 of the leftmost match of the pattern with keyword \<open>kw\<close>;
      \<open>None\<close> is Go's nil result\<close>
  "FindStringSubmatch kw s = find_submatch kw None s"

section \<open>SQL classification (parseSQL, extractTableName)\<close>

definition table_pattern :: "string \<Rightarrow> string option" where
  \<comment> \<open>the keyword of the pattern \<open>extractTableName\<close> compiles for an operation\<close>
  "table_pattern operation =
     (if operation = ''SELECT'' then Some ''FROM''
      else if operation = ''INSERT'' then Some ''INTO''
      else if operation = ''UPDATE'' then Some ''UPDATE''
      else if operation = ''DELETE'' then Some ''FROM''
      else None)"

definition extractTableName :: "string \<Rightarrow> string \<Rightarrow> string" where
  "extractTableName sql operation =
     (case table_pattern operation of
        None \<Rightarrow> []
      | Some kw \<Rightarrow> (case FindStringSubmatch kw sql of Some ident \<Rightarrow> ident | None \<Rightarrow> []))"

definition parseSQL :: "go_unicode \<Rightarrow> string \<Rightarrow> string \<times> string" where
  "parseSQL U sql0 =
     (let sql = TrimSpace sql0;
          upperSQL = ToUpper U sql;
          operation =
            (if HasPrefix upperSQL ''SELECT'' then ''SELECT''
             else if HasPrefix upperSQL ''INSERT'' then ''INSERT''
             else if HasPrefix upperSQL ''UPDATE'' then ''UPDATE''
             else if HasPrefix upperSQL ''DELETE'' then ''DELETE''
             else ''OTHER'')
      in (operation, extractTableName sql operation))"






section \<open>Log events\<close>

datatype zap_level = InfoLevel | WarnLevel | ErrorLevel

datatype go_error = ErrRecordNotFound | ErrOther string | ErrWrap string go_error

fun errors_Is_ErrRecordNotFound :: "go_error \<Rightarrow> bool" where
  \<comment> \<open>\<open>errors.Is(err, gorm.ErrRecordNotFound)\<close>: the sentinel itself, or an error wrapping it\<close>
  "errors_Is_ErrRecordNotFound ErrRecordNotFound = True"
| "errors_Is_ErrRecordNotFound (ErrOther msg) = False"
| "errors_Is_ErrRecordNotFound (ErrWrap msg e) = errors_Is_ErrRecordNotFound e"

datatype field_value =
  FString string | FInt int | FUint nat | FBool bool | FError go_error

record event =
  ev_level :: zap_level
  ev_msg :: string
  ev_fields :: "(string \<times> field_value) list"

text \<open>
  A logger is the process-wide logger \<open>L()\<close> extended by the fields given to \<open>With\<close>;
  it is modelled by those fields. Emitting appends one event to the output of \<open>L()\<close>.
\<close>

type_synonym logger = "(string \<times> field_value) list"

definition emit ::
  "zap_level \<Rightarrow> logger \<Rightarrow> string \<Rightarrow> (string \<times> field_value) list \<Rightarrow> event list \<Rightarrow> event list" where
  "emit lvl lg msg fs out = out @ [\<lparr>ev_level = lvl, ev_msg = msg, ev_fields = lg @ fs\<rparr>]"

record log_context =
  ctx_request_id :: "string option"
  ctx_user_id :: "nat option"
  ctx_trace_id :: "string option"

definition FromContext :: "log_context option \<Rightarrow> logger" where
  "FromContext ctx =
     (case ctx of
        None \<Rightarrow> []
      | Some c \<Rightarrow>
          (case ctx_request_id c of
             Some requestID \<Rightarrow> if requestID \<noteq> '''' then [(''request_id'', FString requestID)] else []
           | None \<Rightarrow> [])
          @ (case ctx_user_id c of
               Some userID \<Rightarrow> if userID > 0 then [(''user_id'', FUint userID)] else []
             | None \<Rightarrow> [])
          @ (case ctx_trace_id c of
               Some traceID \<Rightarrow> if traceID \<noteq> '''' then [(''trace_id'', FString traceID)] else []
             | None \<Rightarrow> []))"

section \<open>The GORM adapter: GormLogger.Trace\<close>

text \<open>
  \<open>gormlogger.LogLevel\<close> is an integer type with the constants Silent = 1, Error = 2,
  Warn = 3, Info = 4. A \<open>time.Duration\<close> is a count of nanoseconds held in 64 bits.
  An instant is given by its distance in nanoseconds from a fixed origin; \<open>time.Since\<close>
  subtracts the instant from the clock reading and saturates at the least and the greatest
  duration (\<open>Time.Sub\<close>).
\<close>

definition gormlogger_Silent :: int where "gormlogger_Silent = 1"
definition gormlogger_Error :: int where "gormlogger_Error = 2"
definition gormlogger_Warn :: int where "gormlogger_Warn = 3"
definition gormlogger_Info :: int where "gormlogger_Info = 4"

record GormConfig =
  SlowThreshold :: int
  IgnoreRecordNotFound :: bool
  LogLevel :: int

definition minDuration :: int where "minDuration = - (2 ^ 63)"
definition maxDuration :: int where "maxDuration = 2 ^ 63 - 1"

definition time_Since :: "int \<Rightarrow> int \<Rightarrow> int" where
  \<comment> \<open>\<open>time.Since(t)\<close> when the clock reads \<open>now\<close>\<close>
  "time_Since now t =
     (if now - t < minDuration then minDuration
      else if maxDuration < now - t then maxDuration
      else now - t)"

definition Milliseconds :: "int \<Rightarrow> int" where
  \<comment> \<open>\<open>Duration.Milliseconds\<close>: integer division, rounding toward zero\<close>
  "Milliseconds d = d sdiv 1000000"

text \<open>
  The state \<open>Trace\<close> acts on: the events emitted so far and the number of times the deferred
  accessor \<open>fc\<close> has been called. \<open>fc\<close> is given by the pair it yields; \<open>now\<close> is the clock
  reading \<open>time.Since\<close> takes, \<open>caller\<close> the result of \<open>utils.FileWithLineNum()\<close>, and
  \<open>err\<close> the execution error (\<open>None\<close> for nil).
\<close>

record trace_state =
  emitted :: "event list"
  fc_calls :: nat

definition Trace ::
  "go_unicode \<Rightarrow> GormConfig \<Rightarrow> log_context option \<Rightarrow> string \<Rightarrow> int \<Rightarrow> int \<Rightarrow> string \<times> int
     \<Rightarrow> go_error option \<Rightarrow> trace_state \<Rightarrow> trace_state" where
  "Trace U cfg ctx caller now begin fc err st =
     (if LogLevel cfg \<le> gormlogger_Silent then st
      else
        let elapsed = time_Since now begin;
            st1 = st\<lparr>fc_calls := Suc (fc_calls st)\<rparr>;
            sql = fst fc;
            rows = snd fc;
            operation = fst (parseSQL U sql);
            table = snd (parseSQL U sql);
            isSlowQuery = (elapsed > SlowThreshold cfg);
            fields0 =
              [(''operation'', FString operation),
               (''table'', FString table),
               (''duration_ms'', FInt (Milliseconds elapsed)),
               (''rows_affected'', FInt rows),
               (''sql'', FString sql),
               (''caller'', FString caller)];
            fields = (if isSlowQuery then fields0 @ [(''slow_query'', FBool True)] else fields0);
            lg = FromContext ctx
        in
          if err \<noteq> None \<and> LogLevel cfg \<ge> gormlogger_Error then
            (case err of
               None \<Rightarrow> st1
             | Some e \<Rightarrow>
                 if IgnoreRecordNotFound cfg \<and> errors_Is_ErrRecordNotFound e then st1
                 else st1\<lparr>emitted :=
                   emit ErrorLevel lg ''Database query failed'' (fields @ [(''error'', FError e)])
                     (emitted st1)\<rparr>)
          else if isSlowQuery \<and> LogLevel cfg \<ge> gormlogger_Warn then
            st1\<lparr>emitted := emit WarnLevel lg ''Slow database query detected'' fields (emitted st1)\<rparr>
          else if LogLevel cfg \<ge> gormlogger_Info then
            st1\<lparr>emitted := emit InfoLevel lg ''Database query executed'' fields (emitted st1)\<rparr>
          else st1)"


section \<open>JSON documents and redaction (shouldMask, maskJSONFields, maskBody)\<close>

text \<open>
  The values \<open>json.Unmarshal\<close> stores into an \<open>any\<close>: nil, bool, float64, string,
  \<open>[]any\<close> and \<open>map[string]any\<close>. A number is kept as the rational it denotes; the
  redaction never looks at it. A Go map is a finite map with unique keys and no order. A compiled
  \<open>*regexp.Regexp\<close> is given by its \<open>MatchString\<close>: the rules are configuration, and
  the matcher is the regexp library's.
\<close>

datatype json =
  JNull | JBool bool | JNumber rat | JString string
  | JArray "json list" | JObject "(string, json) fmap"

type_synonym Regexp = "string \<Rightarrow> bool"

definition DefaultMaskValue :: string where
  "DefaultMaskValue = ''******''"

fun shouldMask :: "string \<Rightarrow> Regexp list \<Rightarrow> bool" where
  "shouldMask fieldName [] = False"
| "shouldMask fieldName (p # patterns) =
     (if p fieldName then True else shouldMask fieldName patterns)"

lemma fmmap_keys_cong [fundef_cong]:
  "m = n \<Longrightarrow> (\<And>k v. v \<in> fmran' n \<Longrightarrow> f k v = g k v) \<Longrightarrow> fmmap_keys f m = fmmap_keys g n"
  by (rule fmap_ext) (auto simp: fmran'I split: option.splits simp: map_option_case)

lemma size_fmran'_less:
  "v \<in> fmran' m \<Longrightarrow> size v < (\<Sum>x\<in>fset (fset_of_fmap m). Suc (case x of (a, x) \<Rightarrow> size x))"
proof -
  assume "v \<in> fmran' m"
  then obtain k where "fmlookup m k = Some v" by (auto simp: fmlookup_ran'_iff)
  then have mem: "(k, v) \<in> fset (fset_of_fmap m)" by simp
  have "(\<lambda>x. Suc (case x of (a, x) \<Rightarrow> size x)) (k, v)
          \<le> (\<Sum>x\<in>fset (fset_of_fmap m). Suc (case x of (a, x) \<Rightarrow> size x))"
    by (rule member_le_sum [OF mem]) auto
  then show ?thesis by simp
qed

text \<open>
  The equations follow the source in order: the early return on an empty rule list, the map
  case, the slice case, the default case.
\<close>

function (sequential) maskJSONFields :: "json \<Rightarrow> Regexp list \<Rightarrow> json" where
  "maskJSONFields data [] = data"
| "maskJSONFields (JObject v) patterns =
     JObject (fmmap_keys (\<lambda>key val.
        if shouldMask key patterns then JString DefaultMaskValue
        else maskJSONFields val patterns) v)"
| "maskJSONFields (JArray v) patterns =
     JArray (map (\<lambda>item. maskJSONFields item patterns) v)"
| "maskJSONFields data patterns = data"
  by pat_completeness auto
termination
  by (relation "measure (\<lambda>(data, patterns). size data)")
     (auto simp: less_Suc_eq_le size_list_estimation' dest: size_fmran'_less)

text \<open>
  Redaction as the specification words it, as a relation between a document and its redacted
  form: scalars stay as they are; sequences keep their length and are redacted element by
  element; maps keep their key set, a key matching some rule is bound to the sentinel whatever
  its value was, and the value under any other key is redacted in turn.
\<close>

inductive redacts :: "Regexp list \<Rightarrow> json \<Rightarrow> json \<Rightarrow> bool" for patterns where
  redacts_null: "redacts patterns JNull JNull"
| redacts_bool: "redacts patterns (JBool b) (JBool b)"
| redacts_number: "redacts patterns (JNumber n) (JNumber n)"
| redacts_string: "redacts patterns (JString s) (JString s)"
| redacts_array:
    "list_all2 (redacts patterns) xs ys \<Longrightarrow> redacts patterns (JArray xs) (JArray ys)"
| redacts_object:
    "fmdom m' = fmdom m \<Longrightarrow>
     (\<forall>k v. fmlookup m k = Some v \<longrightarrow>
        (if shouldMask k patterns then fmlookup m' k = Some (JString DefaultMaskValue)
         else \<exists>v'. fmlookup m' k = Some v' \<and> redacts patterns v v')) \<Longrightarrow>
     redacts patterns (JObject m) (JObject m')"

definition example_rules :: "Regexp list" where
  \<comment> \<open>two rules, standing for compiled patterns that match exactly these field names\<close>
  "example_rules = [\<lambda>k. k = ''password'', \<lambda>k. k = ''token'']"

definition example_document :: json where
  "example_document =
     JObject (fmap_of_list
       [(''user'', JString ''bob''),
        (''password'', JObject (fmap_of_list [(''hash'', JString ''x''), (''salt'', JNumber 7)])),
        (''sessions'', JArray [JObject (fmap_of_list [(''token'', JString ''t0''), (''id'', JNumber 1)]),
                              JNull, JBool True])])"

definition example_redacted :: json where
  "example_redacted =
     JObject (fmap_of_list
       [(''user'', JString ''bob''),
        (''password'', JString ''******''),
        (''sessions'', JArray [JObject (fmap_of_list [(''token'', JString ''******''), (''id'', JNumber 1)]),
                              JNull, JBool True])])"

text \<open>
  \<open>json.Unmarshal\<close> and \<open>json.Marshal\<close> belong to the standard library and are parameters;
  \<open>None\<close> is a non-nil error. \<open>uuid.NewV7\<close> and \<open>uuid.New\<close> are given by the identifier
  they return on their n-th call. \<open>gin_Errors_String\<close> is the method \<open>String\<close> of gin's error
  list, which renders the errors attached to the context as one text.
\<close>

record go_runtime =
  json_Unmarshal :: "string \<Rightarrow> json option"
  json_Marshal :: "json \<Rightarrow> string option"
  uuid_NewV7 :: "nat \<Rightarrow> string"
  uuid_New :: "nat \<Rightarrow> string"
  gin_Errors_String :: "string list \<Rightarrow> string"

definition maskBody :: "go_runtime \<Rightarrow> string \<Rightarrow> Regexp list \<Rightarrow> string" where
  "maskBody R body patterns =
     (if length patterns = 0 \<or> body = [] then body
      else case json_Unmarshal R body of
             None \<Rightarrow> body
           | Some data \<Rightarrow>
               (case json_Marshal R (maskJSONFields data patterns) of
                  None \<Rightarrow> body
                | Some result \<Rightarrow> result))"

subsection \<open>The JSON grammar\<close>










section \<open>The Gin middleware (GinMiddleware)\<close>

record GinConfig =
  RequestIDHeader :: string
  MaxBodyLogSize :: int
  LogRequestBody :: bool
  LogResponseBody :: bool
  SkipPaths :: "string list"
  UseUUIDv7 :: bool
  MaskPatterns :: "Regexp list"

text \<open>
  A request body is an \<open>io.ReadCloser\<close>: the bytes it still yields, and whether reading them
  to the end stops with an error instead of the end of the stream. \<open>io.ReadAll\<close> returns the
  bytes it read and whether the error is non-nil, and leaves the stream consumed.
\<close>

record body_reader =
  remaining :: string
  fails :: bool

definition io_ReadAll :: "body_reader \<Rightarrow> (string \<times> bool) \<times> body_reader" where
  "io_ReadAll r = ((remaining r, fails r), r\<lparr>remaining := []\<rparr>)"

definition NopCloser_NewBuffer :: "string \<Rightarrow> body_reader" where
  \<comment> \<open>\<open>io.NopCloser(bytes.NewBuffer(b))\<close>\<close>
  "NopCloser_NewBuffer b = \<lparr>remaining = b, fails = False\<rparr>"

text \<open>
  The state of one exchange, as far as the middleware reads or writes it: the request, the
  keys set on the context, the response headers, the response writer (its status and size, and
  the buffer \<open>blw.body\<close> of the capturing writer the middleware installs), the errors the
  handlers attached, and, for state passing, the output of the process-wide logger, the number
  of identifiers generated so far and the clock.
\<close>

datatype key_value = KString string | KUint nat | KOther

record gin_Context =
  req_path :: string
  req_raw_query :: string
  req_method :: string
  req_proto :: string
  req_host :: string
  req_user_agent :: string
  req_header :: "string \<Rightarrow> string"
  req_body :: "body_reader option"
  client_ip :: string
  ctx_keys :: "string \<rightharpoonup> key_value"
  resp_header :: "string \<rightharpoonup> string"
  writer_status :: int
  writer_size :: int
  blw_body :: string
  gin_errors :: "string list"
  logged :: "event list"
  uuid_count :: nat
  clock :: int

definition c_Header :: "string \<Rightarrow> string \<Rightarrow> gin_Context \<Rightarrow> gin_Context" where
  \<comment> \<open>\<open>c.Header(key, value)\<close>: an empty value deletes the header\<close>
  "c_Header key v c =
     (if v = [] then c\<lparr>resp_header := (resp_header c)(key := None)\<rparr>
      else c\<lparr>resp_header := (resp_header c)(key \<mapsto> v)\<rparr>)"

definition skipPathMap :: "GinConfig \<Rightarrow> string \<Rightarrow> bool" where
  "skipPathMap cfg path = (path \<in> set (SkipPaths cfg))"

definition slice_to :: "string \<Rightarrow> int \<Rightarrow> string option" where
  \<comment> \<open>the slice expression \<open>b[:n]\<close>; \<open>None\<close> is the run-time panic on an index out of range\<close>
  "slice_to b n = (if 0 \<le> n \<and> n \<le> int (length b) then Some (take (nat n) b) else None)"

definition body_snapshot :: "int \<Rightarrow> string \<Rightarrow> string option" where
  \<comment> \<open>the truncation both snapshots go through (request: at capture; response: at completion)\<close>
  "body_snapshot maxSize b =
     (if int (length b) > maxSize then
        (case slice_to b maxSize of
           None \<Rightarrow> None
         | Some head \<Rightarrow> Some (head @ ''...[truncated]''))
      else Some b)"

definition resolve_request_id :: "go_runtime \<Rightarrow> GinConfig \<Rightarrow> gin_Context \<Rightarrow> string \<times> gin_Context" where
  "resolve_request_id R cfg c =
     (let requestID = req_header c (RequestIDHeader cfg) in
      if requestID = [] then
        (if UseUUIDv7 cfg then uuid_NewV7 R (uuid_count c) else uuid_New R (uuid_count c),
         c\<lparr>uuid_count := Suc (uuid_count c)\<rparr>)
      else (requestID, c))"

definition capture_request_body :: "GinConfig \<Rightarrow> gin_Context \<Rightarrow> (string \<times> gin_Context) option" where
  \<comment> \<open>the snapshot \<open>requestBody\<close> and the context with the body as the handler will find it\<close>
  "capture_request_body cfg c =
     (if LogRequestBody cfg \<and> req_method c \<noteq> ''GET'' then
        (case req_body c of
           None \<Rightarrow> Some ([], c)
         | Some body \<Rightarrow>
             (let bodyBytes = fst (fst (io_ReadAll body));
                  err = snd (fst (io_ReadAll body));
                  consumed = snd (io_ReadAll body)
              in if \<not> err then
                   (let c' = c\<lparr>req_body := Some (NopCloser_NewBuffer bodyBytes)\<rparr> in
                    if length bodyBytes > 0 then
                      (case body_snapshot (MaxBodyLogSize cfg) bodyBytes of
                         None \<Rightarrow> None
                       | Some requestBody \<Rightarrow> Some (requestBody, c'))
                    else Some ([], c'))
                 else Some ([], c\<lparr>req_body := Some consumed\<rparr>)))
      else Some ([], c))"

text \<open>
  Everything the middleware does before \<open>c.Next()\<close>: the identifier, the context key and the
  response header, the start time, the body capture, the "Request received" event and the
  capturing writer. The result is the identifier, the start time, the request-body snapshot
  and the context handed to the downstream handler; \<open>None\<close> is a panic.
\<close>

definition before_handler ::
  "go_runtime \<Rightarrow> GinConfig \<Rightarrow> gin_Context \<Rightarrow> ((string \<times> int \<times> string) \<times> gin_Context) option" where
  "before_handler R cfg c =
     (let requestID = fst (resolve_request_id R cfg c);
          c1 = snd (resolve_request_id R cfg c);
          c2 = c1\<lparr>ctx_keys := (ctx_keys c1)(''request_id'' \<mapsto> KString requestID)\<rparr>;
          c3 = c_Header (RequestIDHeader cfg) requestID c2;
          start = clock c3
      in case capture_request_body cfg c3 of
           None \<Rightarrow> None
         | Some (requestBody, c4) \<Rightarrow>
             (let c5 = c4\<lparr>logged := emit InfoLevel [] ''Request received''
                          [(''request_id'', FString requestID),
                           (''method'', FString (req_method c)),
                           (''path'', FString (req_path c)),
                           (''query'', FString (req_raw_query c)),
                           (''client_ip'', FString (client_ip c)),
                           (''user_agent'', FString (req_user_agent c))]
                          (logged c4)\<rparr>;
                  c6 = c5\<lparr>blw_body := []\<rparr>
              in Some ((requestID, start, requestBody), c6)))"

definition error_body_fields ::
  "go_runtime \<Rightarrow> GinConfig \<Rightarrow> string \<Rightarrow> gin_Context \<Rightarrow> (string \<times> field_value) list option" where
  \<comment> \<open>the fields added for a status of 400 and above\<close>
  "error_body_fields R cfg requestBody c =
     (let request_part =
            (if LogRequestBody cfg \<and> requestBody \<noteq> []
             then [(''request_body'', FString (maskBody R requestBody (MaskPatterns cfg)))]
             else [])
      in if LogResponseBody cfg then
           (case body_snapshot (MaxBodyLogSize cfg) (blw_body c) of
              None \<Rightarrow> None
            | Some responseBody \<Rightarrow>
                Some ((''response_body'', FString (maskBody R responseBody (MaskPatterns cfg)))
                      # request_part))
         else Some request_part)"

definition after_handler ::
  "go_runtime \<Rightarrow> GinConfig \<Rightarrow> gin_Context \<Rightarrow> string \<times> int \<times> string \<Rightarrow> gin_Context
     \<Rightarrow> gin_Context option" where
  \<comment> \<open>\<open>c0\<close> is the context on entry, whose request line the middleware read before the handler ran\<close>
  "after_handler R cfg c0 pre c =
     (let requestID = fst pre;
          start = fst (snd pre);
          requestBody = snd (snd pre);
          latency = time_Since (clock c) start;
          statusCode = writer_status c;
          userID = (case ctx_keys c ''user_id'' of Some (KUint uid) \<Rightarrow> uid | _ \<Rightarrow> 0);
          logFields =
            [(''request_id'', FString requestID),
             (''method'', FString (req_method c0)),
             (''path'', FString (req_path c0)),
             (''status_code'', FInt statusCode),
             (''duration_ms'', FInt (Milliseconds latency)),
             (''ip_address'', FString (client_ip c0)),
             (''protocol'', FString (req_proto c0)),
             (''host'', FString (req_host c0))]
            @ (if req_raw_query c0 \<noteq> [] then [(''query_string'', FString (req_raw_query c0))] else [])
            @ (if userID > 0 then [(''user_id'', FUint userID)] else [])
            @ (if writer_size c > 0 then [(''response_size'', FInt (writer_size c))] else [])
      in case (if statusCode \<ge> 400 then error_body_fields R cfg requestBody c else Some []) of
           None \<Rightarrow> None
         | Some body_fields \<Rightarrow>
             (let all_fields = logFields @ body_fields
                    @ (if length (gin_errors c) > 0
                       then [(''gin_errors'', FString (gin_Errors_String R (gin_errors c)))]
                       else [])
              in Some (c\<lparr>logged :=
                   (if statusCode \<ge> 500 then
                      emit ErrorLevel [] ''Request completed with server error'' all_fields (logged c)
                    else if statusCode \<ge> 400 then
                      emit WarnLevel [] ''Request completed with client error'' all_fields (logged c)
                    else emit InfoLevel [] ''Request completed'' all_fields (logged c))\<rparr>)))"

text \<open>
  The handler function the middleware returns, applied to a context; \<open>next\<close> is \<open>c.Next()\<close>,
  the rest of the handler chain, which may do anything to the state of the exchange.
\<close>

definition GinMiddleware ::
  "go_runtime \<Rightarrow> GinConfig \<Rightarrow> (gin_Context \<Rightarrow> gin_Context) \<Rightarrow> gin_Context \<Rightarrow> gin_Context option" where
  "GinMiddleware R cfg next c =
     (if skipPathMap cfg (req_path c) then Some (next c)
      else case before_handler R cfg c of
             None \<Rightarrow> None
           | Some (pre, c') \<Rightarrow> after_handler R cfg c pre (next c'))"


definition DefaultGinConfig :: GinConfig where
  "DefaultGinConfig =
     \<lparr>RequestIDHeader = ''X-Request-ID'', MaxBodyLogSize = 4096, LogRequestBody = True,
      LogResponseBody = True, SkipPaths = [], UseUUIDv7 = True, MaskPatterns = []\<rparr>"

subsection \<open>A runtime and an exchange for worked examples\<close>

text \<open>
  A runtime whose decoder knows one document, \<^verbatim>\<open>{"pw":1}\<close>, whose encoder knows its
  redacted form and which renders an error list with one error on a line;
  and an exchange with a given path, method and body, nothing set and nothing written yet.
\<close>

definition example_body :: string where
  "example_body = ''{'' @ [CHR 0x22] @ ''pw'' @ [CHR 0x22] @ '':1}''"

definition example_body_redacted :: string where
  "example_body_redacted =
     ''{'' @ [CHR 0x22] @ ''pw'' @ [CHR 0x22] @ '':'' @ [CHR 0x22] @ ''******'' @ [CHR 0x22] @ ''}''"

definition example_runtime :: go_runtime where
  "example_runtime =
     \<lparr>json_Unmarshal =
        (\<lambda>s. if s = example_body
              then Some (JObject (fmap_of_list [(''pw'', JNumber 1)])) else None),
      json_Marshal =
        (\<lambda>d. if d = JObject (fmap_of_list [(''pw'', JString ''******'')])
              then Some example_body_redacted else None),
      uuid_NewV7 = (\<lambda>n. ''0190a6b2-7c11-7def-8000-00000000000'' @ [char_of (48 + n mod 10)]),
      uuid_New = (\<lambda>n. ''6f1c2a9e-3b5d-4e7f-9a10-00000000000'' @ [char_of (48 + n mod 10)]),
      gin_Errors_String = (\<lambda>msgs. concat (map (\<lambda>msg. ''Error: '' @ msg @ [CHR 0x0A]) msgs))\<rparr>"

definition example_exchange :: "string \<Rightarrow> string \<Rightarrow> body_reader option \<Rightarrow> gin_Context" where
  "example_exchange path method body =
     \<lparr>req_path = path, req_raw_query = [], req_method = method, req_proto = ''HTTP/1.1'',
      req_host = ''api.example.org'', req_user_agent = ''curl/8.5.0'', req_header = (\<lambda>k. []),
      req_body = body, client_ip = ''203.0.113.7'', ctx_keys = Map.empty,
      resp_header = Map.empty, writer_status = 200, writer_size = 0, blw_body = [],
      gin_errors = [], logged = [], uuid_count = 0, clock = 0\<rparr>"

definition recording_handler :: "gin_Context \<Rightarrow> gin_Context" where
  \<comment> \<open>a handler that reads the request body to the end and reports what it read as an error
      message, answering 400\<close>
  "recording_handler c =
     c\<lparr>gin_errors := [case req_body c of None \<Rightarrow> [] | Some r \<Rightarrow> remaining r],
       req_body := map_option (\<lambda>r. r\<lparr>remaining := []\<rparr>) (req_body c),
       writer_status := 400\<rparr>"

section \<open>Properties of the SQL classification\<close>

subsection \<open>A keyword as prefix of the upper-cased statement\<close>

lemma byte_nonneg: "0 \<le> byte c"
  by (metis of_nat_of_char of_nat_0_le_iff)

lemma byte_char_of: "0 \<le> r \<Longrightarrow> r < 256 \<Longrightarrow> byte (char_of r) = r"
  by simp



lemma HasPrefix_Nil [simp]: "HasPrefix s [] = True" "HasPrefix [] (k # kw) = False"
  by (simp_all add: HasPrefix_def)

lemma HasPrefix_Cons [simp]: "HasPrefix (a # s) (k # kw) = (a = k \<and> HasPrefix s kw)"
  by (auto simp: HasPrefix_def)




subsection \<open>Runs of word runes\<close>


lemma word_rune_width_Nil [simp]: "word_rune_width [] = 0"
  by (simp add: word_rune_width_def)



















subsection \<open>Matches of a table-name pattern\<close>




















section \<open>Properties of GormLogger.Trace\<close>

text \<open>
  Claim C1, as the code has it. \<open>Trace\<close> returns before calling the deferred accessor only when
  the level is Silent or below. At every level above Silent it calls the accessor exactly
  once, before it routes the event, whether or not an event is then emitted.
\<close>

theorem Trace_accessor_calls:
  "fc_calls (Trace U cfg ctx caller now begin fc err st) =
     (if LogLevel cfg \<le> gormlogger_Silent then fc_calls st else Suc (fc_calls st))"
  by (simp add: Trace_def Let_def split: option.splits)

text \<open>
  The claim as written fails. At level Error with no error and a fast call nothing is emitted,
  and for a suppressed record-not-found error nothing is emitted either; in both runs the
  accessor has been called once.
\<close>

theorem Trace_accessor_lazy_counterexample:
  "emitted (Trace ascii_only \<lparr>SlowThreshold = 200000000, IgnoreRecordNotFound = True, LogLevel = 2\<rparr>
      None ''repo.go:42'' 1000 0 (''SELECT 1'', 1) None \<lparr>emitted = [], fc_calls = 0\<rparr>) = []
   \<and> fc_calls (Trace ascii_only \<lparr>SlowThreshold = 200000000, IgnoreRecordNotFound = True, LogLevel = 2\<rparr>
      None ''repo.go:42'' 1000 0 (''SELECT 1'', 1) None \<lparr>emitted = [], fc_calls = 0\<rparr>) = 1
   \<and> emitted (Trace ascii_only \<lparr>SlowThreshold = 200000000, IgnoreRecordNotFound = True, LogLevel = 4\<rparr>
      None ''repo.go:42'' 1000 0 (''SELECT 1'', 0) (Some ErrRecordNotFound)
      \<lparr>emitted = [], fc_calls = 0\<rparr>) = []
   \<and> fc_calls (Trace ascii_only \<lparr>SlowThreshold = 200000000, IgnoreRecordNotFound = True, LogLevel = 4\<rparr>
      None ''repo.go:42'' 1000 0 (''SELECT 1'', 0) (Some ErrRecordNotFound)
      \<lparr>emitted = [], fc_calls = 0\<rparr>) = 1"
  by (simp add: Trace_def Let_def gormlogger_Silent_def gormlogger_Error_def gormlogger_Warn_def
      gormlogger_Info_def time_Since_def minDuration_def maxDuration_def)

text \<open>
  Claim C2. At a level above Silent, with \<open>IgnoreRecordNotFound\<close> set and an error that
  \<open>errors.Is\<close> classifies as record-not-found, \<open>Trace\<close> emits nothing, whatever the elapsed
  time and the threshold are.
\<close>

theorem Trace_ignorable_error_suppressed:
  "LogLevel cfg > gormlogger_Silent \<Longrightarrow> IgnoreRecordNotFound cfg \<Longrightarrow>
   errors_Is_ErrRecordNotFound e \<Longrightarrow>
   emitted (Trace U cfg ctx caller now begin fc (Some e) st) = emitted st"
  by (simp add: Trace_def Let_def gormlogger_Silent_def gormlogger_Error_def)

theorem Trace_ignorable_error_suppressed_witness:
  "LogLevel \<lparr>SlowThreshold = 200000000, IgnoreRecordNotFound = True, LogLevel = 3\<rparr> > gormlogger_Silent
   \<and> errors_Is_ErrRecordNotFound (ErrWrap ''find user'' ErrRecordNotFound)
   \<and> emitted (Trace ascii_only \<lparr>SlowThreshold = 200000000, IgnoreRecordNotFound = True, LogLevel = 3\<rparr>
        None ''repo.go:42'' 900000000 0 (''SELECT * FROM users WHERE id=1'', 0)
        (Some (ErrWrap ''find user'' ErrRecordNotFound)) \<lparr>emitted = [], fc_calls = 0\<rparr>) = []"
  using Trace_ignorable_error_suppressed
    [of "\<lparr>SlowThreshold = 200000000, IgnoreRecordNotFound = True, LogLevel = 3\<rparr>"
        "ErrWrap ''find user'' ErrRecordNotFound" ascii_only None "''repo.go:42''" 900000000 0
        "(''SELECT * FROM users WHERE id=1'', 0)" "\<lparr>emitted = [], fc_calls = 0\<rparr>"]
  by (simp add: gormlogger_Silent_def)

text \<open>
  Claim C3. With no error and a level of at least Warn, a call whose elapsed time equals the
  threshold is not slow: it is routed to info, and emitted only when the level is at least
  Info. A call whose elapsed time is the threshold plus one nanosecond is slow and is emitted
  as a warning. The elapsed time is what \<open>time.Since\<close> returns, a duration of 64 bits: no
  elapsed time is one nanosecond above the greatest duration.
\<close>

theorem Trace_slow_boundary:
  "LogLevel cfg \<ge> gormlogger_Warn \<Longrightarrow>
   (time_Since now begin = SlowThreshold cfg \<longrightarrow>
      (if LogLevel cfg \<ge> gormlogger_Info
       then \<exists>ev. emitted (Trace U cfg ctx caller now begin fc None st) = emitted st @ [ev]
                \<and> ev_level ev = InfoLevel \<and> ev_msg ev = ''Database query executed''
                \<and> (''slow_query'', FBool True) \<notin> set (ev_fields ev)
       else emitted (Trace U cfg ctx caller now begin fc None st) = emitted st))
   \<and> (time_Since now begin = SlowThreshold cfg + 1 \<longrightarrow>
        (\<exists>ev. emitted (Trace U cfg ctx caller now begin fc None st) = emitted st @ [ev]
           \<and> ev_level ev = WarnLevel \<and> ev_msg ev = ''Slow database query detected''
           \<and> (''slow_query'', FBool True) \<in> set (ev_fields ev)))"
  by (simp add: Trace_def Let_def gormlogger_Silent_def gormlogger_Warn_def gormlogger_Info_def
      emit_def FromContext_def split: option.splits)

theorem Trace_slow_boundary_witness:
  "LogLevel \<lparr>SlowThreshold = 200000000, IgnoreRecordNotFound = True, LogLevel = 3\<rparr> \<ge> gormlogger_Warn
   \<and> time_Since 200000005 5 = SlowThreshold \<lparr>SlowThreshold = 200000000, IgnoreRecordNotFound = True, LogLevel = 3\<rparr>
   \<and> emitted (Trace ascii_only \<lparr>SlowThreshold = 200000000, IgnoreRecordNotFound = True, LogLevel = 3\<rparr>
        None ''repo.go:42'' 200000005 5 (''SELECT 1'', 1) None
        \<lparr>emitted = [], fc_calls = 0\<rparr>) = []
   \<and> time_Since 200000006 5 = SlowThreshold \<lparr>SlowThreshold = 200000000, IgnoreRecordNotFound = True, LogLevel = 3\<rparr> + 1
   \<and> (\<exists>ev. emitted (Trace ascii_only \<lparr>SlowThreshold = 200000000, IgnoreRecordNotFound = True, LogLevel = 3\<rparr>
        None ''repo.go:42'' 200000006 5 (''SELECT 1'', 1) None
        \<lparr>emitted = [], fc_calls = 0\<rparr>) = [ev] \<and> ev_level ev = WarnLevel)"
proof -
  let ?cfg = "\<lparr>SlowThreshold = 200000000, IgnoreRecordNotFound = True, LogLevel = 3\<rparr>"
  have lvl: "LogLevel ?cfg \<ge> gormlogger_Warn" and no_info: "\<not> LogLevel ?cfg \<ge> gormlogger_Info"
    by (simp_all add: gormlogger_Warn_def gormlogger_Info_def)
  have eq: "time_Since 200000005 5 = SlowThreshold ?cfg"
    and above: "time_Since 200000006 5 = SlowThreshold ?cfg + 1"
    by (simp_all add: time_Since_def minDuration_def maxDuration_def)
  note at = Trace_slow_boundary [OF lvl, of 200000005 5 ascii_only None "''repo.go:42''"
      "(''SELECT 1'', 1)" "\<lparr>emitted = [], fc_calls = 0\<rparr>"]
  note over = Trace_slow_boundary [OF lvl, of 200000006 5 ascii_only None "''repo.go:42''"
      "(''SELECT 1'', 1)" "\<lparr>emitted = [], fc_calls = 0\<rparr>"]
  from at eq no_info
  have quiet: "emitted (Trace ascii_only ?cfg None ''repo.go:42'' 200000005 5 (''SELECT 1'', 1) None
        \<lparr>emitted = [], fc_calls = 0\<rparr>) = []"
    by simp
  from over above
  have warn: "\<exists>ev. emitted (Trace ascii_only ?cfg None ''repo.go:42'' 200000006 5 (''SELECT 1'', 1) None
        \<lparr>emitted = [], fc_calls = 0\<rparr>) = [ev] \<and> ev_level ev = WarnLevel"
    by auto
  show ?thesis
    by (intro conjI lvl eq quiet above warn)
qed

section \<open>Properties of the redaction\<close>

lemma redacts_refl_empty: "redacts [] d d"
proof (induction d)
  case (JArray xs)
  then show ?case by (auto intro!: redacts.intros simp: list_all2_same)
next
  case (JObject m)
  then show ?case by (auto intro!: redacts.intros simp: fmran'I)
qed (auto intro: redacts.intros)

lemma redacts_mask: "redacts patterns d (maskJSONFields d patterns)"
proof (induction d patterns rule: maskJSONFields.induct)
  case (1 d)
  then show ?case by (simp add: redacts_refl_empty)
next
  case (2 m p ps)
  let ?f = "\<lambda>key val. if shouldMask key (p # ps) then JString DefaultMaskValue
              else maskJSONFields val (p # ps)"
  have "redacts (p # ps) (JObject m) (JObject (fmmap_keys ?f m))"
  proof (rule redacts_object, goal_cases)
    case 1
    show ?case by simp
  next
    case 2
    show ?case
    proof (intro allI impI)
      fix k v
      assume l: "fmlookup m k = Some v"
      show "if shouldMask k (p # ps)
            then fmlookup (fmmap_keys ?f m) k = Some (JString DefaultMaskValue)
            else \<exists>v'. fmlookup (fmmap_keys ?f m) k = Some v' \<and> redacts (p # ps) v v'"
      proof (cases "shouldMask k (p # ps)")
        case True
        then show ?thesis using l by (simp del: shouldMask.simps)
      next
        case False
        from "2.IH" [OF fmran'I [OF l] False] False l show ?thesis
          by (simp del: shouldMask.simps)
      qed
    qed
  qed
  then show ?case by simp
next
  case (3 xs p ps)
  then show ?case by (auto intro!: redacts.intros simp: list_all2_conv_all_nth)
qed (auto intro: redacts.intros)

lemma maskJSONFields_twice: "maskJSONFields (maskJSONFields d patterns) patterns = maskJSONFields d patterns"
proof (induction d patterns rule: maskJSONFields.induct)
  case (2 m p ps)
  let ?f = "\<lambda>key val. if shouldMask key (p # ps) then JString DefaultMaskValue
              else maskJSONFields val (p # ps)"
  have "fmmap_keys ?f (fmmap_keys ?f m) = fmmap_keys ?f m"
  proof (rule fmap_ext)
    fix k
    show "fmlookup (fmmap_keys ?f (fmmap_keys ?f m)) k = fmlookup (fmmap_keys ?f m) k"
    proof (cases "fmlookup m k")
      case None
      then show ?thesis by simp
    next
      case (Some v)
      show ?thesis
      proof (cases "shouldMask k (p # ps)")
        case True
        then show ?thesis using Some by (simp del: shouldMask.simps)
      next
        case False
        from "2.IH" [OF fmran'I [OF Some] False] False Some show ?thesis
          by (simp del: shouldMask.simps)
      qed
    qed
  qed
  then show ?case by simp
next
  case (3 xs p ps)
  then show ?case by simp
qed simp_all

lemma redacts_unique: "redacts patterns d d' \<Longrightarrow> d' = maskJSONFields d patterns"
proof (induction rule: redacts.induct)
  case (redacts_array xs ys)
  then have "ys = map (\<lambda>item. maskJSONFields item patterns) xs"
    by (induction xs ys rule: list_all2_induct) auto
  then show ?case by (cases patterns) (simp_all add: map_idI)
next
  case (redacts_object m' m)
  show ?case
  proof (cases patterns)
    case Nil
    have "m' = m"
    proof (rule fmap_ext)
      fix k
      show "fmlookup m' k = fmlookup m k"
      proof (cases "fmlookup m k")
        case None
        then show ?thesis using redacts_object(1) by (metis fmdom_notD fmdom_notI)
      next
        case (Some v)
        then show ?thesis using redacts_object(2) Nil by auto
      qed
    qed
    then show ?thesis using Nil by simp
  next
    case (Cons p ps)
    let ?f = "\<lambda>key val. if shouldMask key (p # ps) then JString DefaultMaskValue
              else maskJSONFields val (p # ps)"
    have "m' = fmmap_keys ?f m"
    proof (rule fmap_ext)
      fix k
      show "fmlookup m' k = fmlookup (fmmap_keys ?f m) k"
      proof (cases "fmlookup m k")
        case None
        then show ?thesis using redacts_object(1) by (simp, metis fmdom_notD fmdom_notI)
      next
        case (Some v)
        with redacts_object(2) have
          "if shouldMask k patterns then fmlookup m' k = Some (JString DefaultMaskValue)
           else \<exists>v'. fmlookup m' k = Some v' \<and> redacts patterns v v'
                  \<and> v' = maskJSONFields v patterns"
          by blast
        then show ?thesis using Some Cons by (auto simp del: shouldMask.simps)
      qed
    qed
    then show ?thesis using Cons by simp
  qed
qed (cases patterns; simp)+

lemma example_document_redacted:
  "maskJSONFields example_document example_rules = example_redacted"
  by code_simp

text \<open>
  Claim C4. Redaction is idempotent: redacting a redacted document with the same rules
  changes nothing.
\<close>

theorem maskJSONFields_idempotent:
  "maskJSONFields (maskJSONFields d patterns) patterns = maskJSONFields d patterns"
  by (rule maskJSONFields_twice)

theorem maskJSONFields_idempotent_witness:
  "maskJSONFields example_document example_rules = example_redacted
   \<and> maskJSONFields (maskJSONFields example_document example_rules) example_rules = example_redacted"
  using maskJSONFields_idempotent [of example_document example_rules] example_document_redacted
  by simp

text \<open>
  Claim C5. The output of \<open>maskJSONFields\<close> is the redacted form of its input in the sense of
  \<open>redacts\<close>, at every level of the document, and it is the only such document. In particular
  a map keeps its key set, with the sentinel under every key that matches a rule and the
  redacted value under every other key; a sequence keeps its length and is redacted position
  by position; a scalar is returned as it is.
\<close>

theorem maskJSONFields_preserves_shape:
  "redacts patterns d (maskJSONFields d patterns)
   \<and> (\<forall>d'. redacts patterns d d' \<longrightarrow> d' = maskJSONFields d patterns)
   \<and> (\<exists>m'. maskJSONFields (JObject m) patterns = JObject m' \<and> fmdom m' = fmdom m
         \<and> (\<forall>k v. fmlookup m k = Some v \<longrightarrow>
               fmlookup m' k = Some (if shouldMask k patterns then JString DefaultMaskValue
                                     else maskJSONFields v patterns)))
   \<and> (\<exists>ys. maskJSONFields (JArray xs) patterns = JArray ys \<and> length ys = length xs
         \<and> (\<forall>i < length xs. ys ! i = maskJSONFields (xs ! i) patterns))
   \<and> maskJSONFields JNull patterns = JNull
   \<and> maskJSONFields (JBool b) patterns = JBool b
   \<and> maskJSONFields (JNumber n) patterns = JNumber n
   \<and> maskJSONFields (JString s) patterns = JString s"
proof -
  have obj: "\<exists>m'. maskJSONFields (JObject m) patterns = JObject m' \<and> fmdom m' = fmdom m
         \<and> (\<forall>k v. fmlookup m k = Some v \<longrightarrow>
               fmlookup m' k = Some (if shouldMask k patterns then JString DefaultMaskValue
                                     else maskJSONFields v patterns))"
    by (cases patterns) (simp_all del: shouldMask.simps(2))
  have arr: "\<exists>ys. maskJSONFields (JArray xs) patterns = JArray ys \<and> length ys = length xs
         \<and> (\<forall>i < length xs. ys ! i = maskJSONFields (xs ! i) patterns)"
    by (cases patterns) simp_all
  have scal: "maskJSONFields JNull patterns = JNull" "maskJSONFields (JBool b) patterns = JBool b"
    "maskJSONFields (JNumber n) patterns = JNumber n" "maskJSONFields (JString s) patterns = JString s"
    by (cases patterns; simp)+
  show ?thesis using redacts_mask redacts_unique obj arr scal by blast
qed

theorem maskJSONFields_preserves_shape_witness:
  "redacts example_rules example_document example_redacted
   \<and> maskJSONFields example_document example_rules = example_redacted"
proof -
  have "redacts example_rules example_document (maskJSONFields example_document example_rules)"
    using maskJSONFields_preserves_shape [of example_rules example_document] by blast
  then show ?thesis by (simp add: example_document_redacted)
qed


section \<open>Truncated snapshots are not JSON\<close>








section \<open>Properties of the middleware\<close>

lemma body_snapshot_long:
  "0 \<le> m \<Longrightarrow> int (length b) > m \<Longrightarrow> body_snapshot m b = Some (take (nat m) b @ ''...[truncated]'')"
  by (simp add: body_snapshot_def slice_to_def)

lemma body_snapshot_short: "int (length b) \<le> m \<Longrightarrow> body_snapshot m b = Some b"
  by (simp add: body_snapshot_def)

lemma body_snapshot_cases:
  "0 \<le> m \<Longrightarrow> body_snapshot m b =
     Some (if int (length b) > m then take (nat m) b @ ''...[truncated]'' else b)"
  by (simp add: body_snapshot_long body_snapshot_short)






text \<open>
  Claim C8. On a path of the skip list (compared as a whole string) the middleware does
  nothing but call the downstream handler, on the context exactly as it arrived: the result
  is the handler's result, so no identifier is generated, no key or header is set, the body
  is not read and no event is emitted by the middleware.
\<close>

theorem skip_path_transparent:
  "req_path c \<in> set (SkipPaths cfg) \<Longrightarrow> GinMiddleware R cfg next c = Some (next c)"
  by (simp add: GinMiddleware_def skipPathMap_def)

theorem skip_path_transparent_witness:
  "req_path (example_exchange ''/health'' ''POST'' (Some \<lparr>remaining = ''ping'', fails = False\<rparr>))
     \<in> set (SkipPaths (DefaultGinConfig\<lparr>SkipPaths := [''/health'', ''/metrics'']\<rparr>))
   \<and> GinMiddleware example_runtime (DefaultGinConfig\<lparr>SkipPaths := [''/health'', ''/metrics'']\<rparr>)
        (\<lambda>c. c) (example_exchange ''/health'' ''POST'' (Some \<lparr>remaining = ''ping'', fails = False\<rparr>))
     = Some (example_exchange ''/health'' ''POST'' (Some \<lparr>remaining = ''ping'', fails = False\<rparr>))"
  using skip_path_transparent
    [of "example_exchange ''/health'' ''POST'' (Some \<lparr>remaining = ''ping'', fails = False\<rparr>)"
        "DefaultGinConfig\<lparr>SkipPaths := [''/health'', ''/metrics'']\<rparr>" example_runtime "\<lambda>c. c"]
  by (simp add: example_exchange_def)

text \<open>
  Claim C7, as the code has it. On a path that is not skipped, with request-body logging on,
  a method other than GET and a body that is read to its end without error, the context the
  downstream handler is called with holds the complete original body again; the handler is
  called whenever \<open>MaxBodyLogSize\<close> is not negative.
\<close>

theorem request_body_restored_when_read:
  "req_path c \<notin> set (SkipPaths cfg) \<Longrightarrow> LogRequestBody cfg \<Longrightarrow> req_method c \<noteq> ''GET'' \<Longrightarrow>
   req_body c = Some r \<Longrightarrow> \<not> fails r \<Longrightarrow>
   (\<forall>pre c'. before_handler R cfg c = Some (pre, c') \<longrightarrow>
        req_body c' = Some r
      \<and> GinMiddleware R cfg next c = after_handler R cfg c pre (next c'))
   \<and> (0 \<le> MaxBodyLogSize cfg \<longrightarrow> before_handler R cfg c \<noteq> None)"
proof -
  assume skip: "req_path c \<notin> set (SkipPaths cfg)" and lg: "LogRequestBody cfg"
    and m: "req_method c \<noteq> ''GET''" and b: "req_body c = Some r" and f: "\<not> fails r"
  define c3 where "c3 = c_Header (RequestIDHeader cfg) (fst (resolve_request_id R cfg c))
     ((snd (resolve_request_id R cfg c))\<lparr>ctx_keys := (ctx_keys (snd (resolve_request_id R cfg c)))
        (''request_id'' \<mapsto> KString (fst (resolve_request_id R cfg c)))\<rparr>)"
  have c3: "req_body c3 = Some r" "req_method c3 = req_method c"
    by (simp_all add: c3_def c_Header_def resolve_request_id_def Let_def b)
  have r: "NopCloser_NewBuffer (remaining r) = r"
    using f by (simp add: NopCloser_NewBuffer_def)
  have cap: "\<forall>rb c4. capture_request_body cfg c3 = Some (rb, c4) \<longrightarrow> req_body c4 = Some r"
    using lg m c3 f r
    by (auto simp: capture_request_body_def io_ReadAll_def Let_def split: option.splits if_splits)
  have cap_some: "0 \<le> MaxBodyLogSize cfg \<longrightarrow> capture_request_body cfg c3 \<noteq> None"
    using lg m c3 f
    by (auto simp: capture_request_body_def io_ReadAll_def Let_def body_snapshot_cases)
  have bh: "before_handler R cfg c =
      (case capture_request_body cfg c3 of None \<Rightarrow> None
       | Some (requestBody, c4) \<Rightarrow>
           Some ((fst (resolve_request_id R cfg c), clock c3, requestBody),
                 c4\<lparr>logged := emit InfoLevel [] ''Request received''
                          [(''request_id'', FString (fst (resolve_request_id R cfg c))),
                           (''method'', FString (req_method c)),
                           (''path'', FString (req_path c)),
                           (''query'', FString (req_raw_query c)),
                           (''client_ip'', FString (client_ip c)),
                           (''user_agent'', FString (req_user_agent c))]
                          (logged c4), blw_body := []\<rparr>))"
    by (simp add: before_handler_def Let_def c3_def split: option.splits prod.splits)
  have 1: "\<forall>pre c'. before_handler R cfg c = Some (pre, c') \<longrightarrow> req_body c' = Some r"
    using cap by (auto simp: bh split: option.splits)
  have 2: "\<forall>pre c'. before_handler R cfg c = Some (pre, c') \<longrightarrow>
             GinMiddleware R cfg next c = after_handler R cfg c pre (next c')"
    using skip by (simp add: GinMiddleware_def skipPathMap_def)
  have 3: "0 \<le> MaxBodyLogSize cfg \<longrightarrow> before_handler R cfg c \<noteq> None"
    using cap_some by (auto simp: bh split: option.splits)
  from 1 2 3 show ?thesis by blast
qed

lemma example_read_ok:
  "map_option gin_errors
     (GinMiddleware example_runtime DefaultGinConfig recording_handler
        (example_exchange ''/api/login'' ''POST'' (Some \<lparr>remaining = ''ab'', fails = False\<rparr>)))
   = Some [''ab'']"
  by (simp add: GinMiddleware_def skipPathMap_def before_handler_def after_handler_def
      capture_request_body_def io_ReadAll_def NopCloser_NewBuffer_def body_snapshot_def
      resolve_request_id_def c_Header_def error_body_fields_def Let_def DefaultGinConfig_def
      example_exchange_def example_runtime_def recording_handler_def emit_def maskBody_def)

theorem request_body_restored_when_read_witness:
  "req_path (example_exchange ''/api/login'' ''POST'' (Some \<lparr>remaining = ''ab'', fails = False\<rparr>))
     \<notin> set (SkipPaths DefaultGinConfig)
   \<and> LogRequestBody DefaultGinConfig
   \<and> 0 \<le> MaxBodyLogSize DefaultGinConfig
   \<and> before_handler example_runtime DefaultGinConfig
        (example_exchange ''/api/login'' ''POST'' (Some \<lparr>remaining = ''ab'', fails = False\<rparr>)) \<noteq> None
   \<and> map_option gin_errors
        (GinMiddleware example_runtime DefaultGinConfig recording_handler
           (example_exchange ''/api/login'' ''POST'' (Some \<lparr>remaining = ''ab'', fails = False\<rparr>)))
      = Some [''ab'']"
  using request_body_restored_when_read
    [of "example_exchange ''/api/login'' ''POST'' (Some \<lparr>remaining = ''ab'', fails = False\<rparr>)"
        DefaultGinConfig "\<lparr>remaining = ''ab'', fails = False\<rparr>" example_runtime recording_handler]
    example_read_ok
  by (simp add: DefaultGinConfig_def example_exchange_def)

text \<open>
  The claim as written fails when the read fails partway. A POST whose body yields the bytes
  \<open>ab\<close> and then a read error reaches the handler with those bytes gone: the handler, which
  reports what it can read, reports nothing.
\<close>

theorem request_body_lost_counterexample:
  "map_option gin_errors
     (GinMiddleware example_runtime DefaultGinConfig recording_handler
        (example_exchange ''/api/login'' ''POST'' (Some \<lparr>remaining = ''ab'', fails = True\<rparr>)))
   = Some [[]]
   \<and> map_option (\<lambda>x. req_body (snd x))
       (before_handler example_runtime DefaultGinConfig
          (example_exchange ''/api/login'' ''POST'' (Some \<lparr>remaining = ''ab'', fails = True\<rparr>)))
     = Some (Some \<lparr>remaining = [], fails = True\<rparr>)"
  by (simp add: GinMiddleware_def skipPathMap_def before_handler_def after_handler_def
      capture_request_body_def io_ReadAll_def NopCloser_NewBuffer_def body_snapshot_def
      resolve_request_id_def c_Header_def error_body_fields_def Let_def DefaultGinConfig_def
      example_exchange_def example_runtime_def recording_handler_def emit_def maskBody_def)













end
